theory Spec2Isabelle
  imports Complex_Main
begin

section \<open>Data model of \<^verbatim>\<open>Well.py\<close>\<close>

text \<open>
  Exceptions that the modelled code can raise. \<open>Exception\<close> carries its message;
  \<open>KeyError\<close> and \<open>IndexError\<close> are the two subclasses of Python's \<open>LookupError\<close>;
  \<open>UnboundLocalError\<close> is raised when a local variable is read before any assignment.
\<close>

datatype error = Exception string | KeyError | IndexError | UnboundLocalError

fun is_LookupError :: "error \<Rightarrow> bool" where
  "is_LookupError KeyError = True"
| "is_LookupError IndexError = True"
| "is_LookupError (Exception m) = False"
| "is_LookupError UnboundLocalError = False"

text \<open>One row of the interval table, with the four columns of line 20.\<close>

record interval =
  Lithology :: string
  Top :: real
  Bottom :: real
  Description :: string

text \<open>
  A pandas DataFrame is an ordered sequence of rows, each carrying an index label.
  Labels are the non-negative integers that \<open>ignore_index=True\<close> hands out; they travel
  with their row through \<open>drop_duplicates\<close>, \<open>sort_values\<close>, \<open>drop\<close> and boolean masking.
\<close>

type_synonym DataFrame = "(nat \<times> interval) list"

text \<open>
  The instance attributes of a \<open>Well\<close>. The attribute \<open>intervals\<close> is declared on the class
  (line 20); an instance has an entry of its own only after an assignment
  \<open>self.intervals = ...\<close>, hence the option.
\<close>

record Well =
  name :: string
  xcoord :: real
  ycoord :: real
  elevation :: real
  date :: string
  project :: string
  logged_by :: string
  own_intervals :: "DataFrame option"

text \<open>\<open>__init__\<close>: every keyword is optional (\<open>kwargs.get\<close> with a default).\<close>

definition Well_init ::
  "string option \<Rightarrow> real option \<Rightarrow> real option \<Rightarrow> real option \<Rightarrow>
   string option \<Rightarrow> string option \<Rightarrow> string option \<Rightarrow> Well" where
  "Well_init nm x y e d p l =
     \<lparr> name = (case nm of None \<Rightarrow> ''Borehole'' | Some v \<Rightarrow> v),
       xcoord = (case x of None \<Rightarrow> 0 | Some v \<Rightarrow> v),
       ycoord = (case y of None \<Rightarrow> 0 | Some v \<Rightarrow> v),
       elevation = (case e of None \<Rightarrow> 0 | Some v \<Rightarrow> v),
       date = (case d of None \<Rightarrow> ''---'' | Some v \<Rightarrow> v),
       project = (case p of None \<Rightarrow> ''---'' | Some v \<Rightarrow> v),
       logged_by = (case l of None \<Rightarrow> ''Not Specified'' | Some v \<Rightarrow> v),
       own_intervals = None \<rparr>"

text \<open>
  Attribute lookup \<open>self.intervals\<close>: the instance's own entry if there is one, otherwise
  the class attribute \<open>cls\<close> (the value of \<open>Well.intervals\<close>).
\<close>

definition intervals :: "DataFrame \<Rightarrow> Well \<Rightarrow> DataFrame" where
  "intervals cls w = (case own_intervals w of None \<Rightarrow> cls | Some df \<Rightarrow> df)"

section \<open>The pandas operations used by the source\<close>

text \<open>\<open>df.append(row, ignore_index=True)\<close>: the row goes last and all labels are renumbered
  \<open>0, 1, ...\<close> in the order the rows are stored.\<close>

definition append_ignore_index :: "DataFrame \<Rightarrow> interval \<Rightarrow> DataFrame" where
  "append_ignore_index df r = zip [0..<Suc (length df)] (map snd df @ [r])"

text \<open>\<open>df.drop_duplicates()\<close>: of rows equal in all four columns the first is kept
  (\<open>keep='first'\<close>); labels are not renumbered.\<close>

fun drop_duplicates :: "DataFrame \<Rightarrow> DataFrame" where
  "drop_duplicates [] = []"
| "drop_duplicates (p # ps) = p # drop_duplicates (filter (\<lambda>q. snd q \<noteq> snd p) ps)"

text \<open>\<open>df.sort_values(by='Top')\<close>: ascending by the Top column, labels travel with
  their rows. Rows with equal Top keep their stored order here; no statement below
  depends on the order of such ties except where it says so.\<close>

definition sort_values :: "DataFrame \<Rightarrow> DataFrame" where
  "sort_values df = sort_key (\<lambda>p. Top (snd p)) df"

text \<open>\<open>df.drop(k)\<close>: removes the rows labelled \<open>k\<close>; a label that is not in the index
  raises \<open>KeyError\<close>. The argument is a Python integer.\<close>

definition drop_label :: "DataFrame \<Rightarrow> int \<Rightarrow> error + DataFrame" where
  "drop_label df k =
     (if k \<in> set (map (\<lambda>p. int (fst p)) df)
      then Inr (filter (\<lambda>p. int (fst p) \<noteq> k) df)
      else Inl KeyError)"

text \<open>\<open>df.iloc[i]\<close>: the row at position \<open>i\<close>, counting from the end when \<open>i\<close> is
  negative; \<open>IndexError\<close> out of bounds.\<close>

definition iloc :: "DataFrame \<Rightarrow> int \<Rightarrow> error + interval" where
  "iloc df i =
     (if 0 \<le> i \<and> i < int (length df) then Inr (snd (df ! nat i))
      else if i < 0 \<and> - int (length df) \<le> i then Inr (snd (df ! nat (int (length df) + i)))
      else Inl IndexError)"

section \<open>Mutation: \<open>add_interval\<close> and \<open>remove_interval\<close>\<close>

definition add_interval ::
  "DataFrame \<Rightarrow> Well \<Rightarrow> real \<Rightarrow> real \<Rightarrow> string \<Rightarrow> string \<Rightarrow> Well" where
  "add_interval cls w tp bttm lithology description =
     (let interval = \<lparr> Lithology = lithology, Top = tp, Bottom = bttm,
                        Description = description \<rparr>;
          w1 = w\<lparr>own_intervals := Some (append_ignore_index (intervals cls w) interval)\<rparr>;
          w2 = w1\<lparr>own_intervals := Some (drop_duplicates (intervals cls w1))\<rparr>
      in w2\<lparr>own_intervals := Some (sort_values (intervals cls w2))\<rparr>)"

text \<open>An exception leaves the object as it was: the assignment of line 47 is not reached
  when \<open>drop\<close> raises.\<close>

definition remove_interval ::
  "DataFrame \<Rightarrow> Well \<Rightarrow> int option \<Rightarrow> string option \<Rightarrow> error + Well" where
  "remove_interval cls w layNum lithology =
     (if layNum = None \<and> lithology = None
      then Inl (Exception ''Need to specify a layer number or lithology!'')
      else
        (case (case layNum of
                 None \<Rightarrow> Inr w
               | Some k \<Rightarrow>
                   (case drop_label (intervals cls w) k of
                      Inl e \<Rightarrow> Inl e
                    | Inr df \<Rightarrow> Inr (w\<lparr>own_intervals := Some df\<rparr>))) of
           Inl e \<Rightarrow> Inl e
         | Inr w1 \<Rightarrow>
             Inr (case lithology of
                    None \<Rightarrow> w1
                  | Some l \<Rightarrow>
                      w1\<lparr>own_intervals :=
                           Some (filter (\<lambda>p. Lithology (snd p) \<noteq> l) (intervals cls w1))\<rparr>)))"




section \<open>The style table\<close>

record style =
  color :: string
  hatch :: string
  alpha :: real

definition bs :: char where
  "bs = CHR 0x5C"

definition plotTemplates :: "string \<Rightarrow> style option" where
  "plotTemplates = map_of
     [(''Complex Zone'', \<lparr>color = ''wheat'', hatch = ''..'', alpha = 0.9\<rparr>),
      (''Brown Clay'', \<lparr>color = ''tan'', hatch = ''---'', alpha = 0.7\<rparr>),
      (''Grey Clay'', \<lparr>color = ''dimgray'', hatch = ''---'', alpha = 0.8\<rparr>),
      (''Fill'', \<lparr>color = ''black'', hatch = ''..'', alpha = 0.7\<rparr>),
      (''Silt'', \<lparr>color = ''tan'', hatch = [bs, bs, bs], alpha = 0.8\<rparr>),
      (''Clay Silt'', \<lparr>color = ''tan'', hatch = bs # '',--'', alpha = 0.8\<rparr>),
      (''Clay'', \<lparr>color = ''dimgray'', hatch = ''---'', alpha = 0.8\<rparr>),
      (''Silt Clay'', \<lparr>color = ''rosybrown'', hatch = ''--,'' @ [bs], alpha = 0.8\<rparr>),
      (''Till'', \<lparr>color = ''peru'', hatch = ''xx'', alpha = 0.85\<rparr>),
      (''Bedrock'', \<lparr>color = ''khaki'', hatch = [bs, bs], alpha = 0.85\<rparr>)]"

section \<open>Rendering\<close>

text \<open>
  The calls made on matplotlib, in the order they are made. \<open>Fill x y color hatch alpha
  label\<close> is \<open>ax.fill\<close>, \<open>Text x y s\<close> is \<open>ax.text\<close>, \<open>Legend handles labels\<close> is
  \<open>ax.legend\<close> (a handle is the number of the \<open>fill\<close> call that made it), \<open>Savefig\<close> is
  the file write and \<open>Show\<close> the display. Calls that only set constant styling (spines,
  tick locators and formatters, \<open>tick_params\<close>, \<open>set_xticks\<close>) cannot raise and are
  not recorded.
\<close>

datatype event =
    Subplots
  | Fill "real list" "real list" string string real string
  | Text real real string
  | Set_ylim real real
  | Invert_yaxis
  | Grid
  | Set_xlabel string
  | Set_ylabel string
  | Legend "nat list" "string list"
  | Set_title string
  | Savefig string
  | Show

fun is_Fill :: "event \<Rightarrow> bool" where
  "is_Fill (Fill x y c h a l) = True"
| "is_Fill e = False"

fun is_Savefig :: "event \<Rightarrow> bool" where
  "is_Savefig (Savefig f) = True"
| "is_Savefig e = False"

fun fill_label :: "event \<Rightarrow> string" where
  "fill_label (Fill x y c h a l) = l"
| "fill_label e = []"

text \<open>\<open>OrderedDict(zip(l, h))\<close>: a key keeps the place of its first insertion and the
  value of its last.\<close>

fun od_update :: "'k \<Rightarrow> 'v \<Rightarrow> ('k \<times> 'v) list \<Rightarrow> ('k \<times> 'v) list" where
  "od_update k v [] = [(k, v)]"
| "od_update k v (p # ps) = (if fst p = k then (k, v) # ps else p # od_update k v ps)"

definition OrderedDict :: "('k \<times> 'v) list \<Rightarrow> ('k \<times> 'v) list" where
  "OrderedDict kvs = foldl (\<lambda>d kv. od_update (fst kv) (snd kv) d) [] kvs"

definition legend_call :: "event list \<Rightarrow> event" where
  "legend_call evs =
     (let l = map fill_label (filter is_Fill evs);
          h = [0..<length l];
          legDict = OrderedDict (zip l h)
      in Legend (map snd legDict) (map fst legDict))"

definition replace_space :: "string \<Rightarrow> string" where
  "replace_space s = map (\<lambda>c. if c = CHR '' '' then CHR ''_'' else c) s"

text \<open>
  The loop of \<open>plotWell\<close> (lines 86 to 112) over the index labels: each label is used
  as a position (\<open>iloc[i]\<close>). The result is the exception raised, if any, and the calls
  made up to that point.
\<close>

fun plotWell_loop :: "DataFrame \<Rightarrow> bool \<Rightarrow> nat list \<Rightarrow> error option \<times> event list" where
  "plotWell_loop df description [] = (None, [])"
| "plotWell_loop df description (i # idx) =
     (case iloc df (int i) of
        Inl e \<Rightarrow> (Some e, [])
      | Inr r \<Rightarrow>
          (case plotTemplates (Lithology r) of
             None \<Rightarrow> (Some KeyError, [])
           | Some st \<Rightarrow>
               (let width = 1;
                    drawn = Fill [0, 0, width, width] [Top r, Bottom r, Bottom r, Top r]
                              (color st) (hatch st) (alpha st) (Lithology r)
                            # (if description then [Text (width * 1.1) (Top r) (Description r)]
                               else []);
                    rest = plotWell_loop df description idx
                in (fst rest, drawn @ snd rest))))"

definition plotWell ::
  "DataFrame \<Rightarrow> Well \<Rightarrow> bool \<Rightarrow> bool \<Rightarrow> bool \<Rightarrow> string option \<Rightarrow> bool \<Rightarrow>
   error option \<times> event list" where
  "plotWell cls self description hatch0 legend figTitle save =
     (case iloc (intervals cls self) 0 of
        Inl e \<Rightarrow> (Some e, [])
      | Inr first \<Rightarrow>
          (case iloc (intervals cls self) (- 1) of
             Inl e \<Rightarrow> (Some e, [])
           | Inr lastr \<Rightarrow>
               (let tp = Top first; bttm = Bottom lastr;
                    body = plotWell_loop (intervals cls self) description
                             (map fst (intervals cls self));
                    evs = Subplots # snd body
                in case fst body of
                     Some e \<Rightarrow> (Some e, evs)
                   | None \<Rightarrow>
                       (None,
                        evs @ [Set_ylim tp bttm, Invert_yaxis, Set_ylabel ''Depth [m]'']
                          @ (if legend then [legend_call evs] else [])
                          @ (if save
                             then [Set_title (name self), Savefig (replace_space (name self))]
                             else [])
                          @ [Show]))))"

text \<open>
  The inner loop of \<open>plotSection\<close> (lines 226 to 242). The local variable \<open>xx\<close> is assigned
  only here; \<open>None\<close> is the unbound variable. The result also gives \<open>xx\<close> as the loop
  leaves it.
\<close>

fun plotSection_loop ::
  "DataFrame \<Rightarrow> Well \<Rightarrow> real \<Rightarrow> nat list \<Rightarrow> real option \<Rightarrow>
   error option \<times> real option \<times> event list" where
  "plotSection_loop cls w width [] xx = (None, xx, [])"
| "plotSection_loop cls w width (i # idx) xx =
     (case iloc (intervals cls w) (int i) of
        Inl e \<Rightarrow> (Some e, xx, [])
      | Inr r \<Rightarrow>
          (let intTop = elevation w - Top r;
               intBttm = elevation w - Bottom r
           in case plotTemplates (Lithology r) of
                None \<Rightarrow> (Some KeyError, xx, [])
              | Some st \<Rightarrow>
                  (let xx' = xcoord w;
                       drawn = Fill [xx', xx', xx' + width, xx' + width]
                                 [intTop, intBttm, intBttm, intTop]
                                 (color st) (hatch st) (alpha st) (Lithology r);
                       rest = plotSection_loop cls w width idx (Some xx')
                   in (fst rest, fst (snd rest), drawn # snd (snd rest)))))"

text \<open>The outer loop (lines 224 to 246): the intervals of a well, then its name label
  at \<open>xx + width * 0.5\<close>, where \<open>xx\<close> is whatever the inner loops have left.\<close>

fun plotSection_wells ::
  "DataFrame \<Rightarrow> Well list \<Rightarrow> real \<Rightarrow> real \<Rightarrow> real option \<Rightarrow> error option \<times> event list" where
  "plotSection_wells cls [] width wellLabelHeight xx = (None, [])"
| "plotSection_wells cls (w # wells) width wellLabelHeight xx =
     (let body = plotSection_loop cls w width (map fst (intervals cls w)) xx
      in case fst body of
           Some e \<Rightarrow> (Some e, snd (snd body))
         | None \<Rightarrow>
             (case fst (snd body) of
                None \<Rightarrow> (Some UnboundLocalError, snd (snd body))
              | Some x \<Rightarrow>
                  (let wellTitleElevation = wellLabelHeight;
                       label = Text (x + width * 0.5) (elevation w + wellTitleElevation) (name w);
                       rest = plotSection_wells cls wells width wellLabelHeight (Some x)
                   in (fst rest, snd (snd body) @ label # snd rest))))"

definition plotSection ::
  "DataFrame \<Rightarrow> Well list \<Rightarrow> real \<Rightarrow> bool \<Rightarrow> bool \<Rightarrow> string \<Rightarrow> bool \<Rightarrow> bool \<Rightarrow> real \<Rightarrow>
   error option \<times> event list" where
  "plotSection cls wells width grid save title north elev wellLabelHeight =
     (let body = plotSection_wells cls wells width wellLabelHeight None;
          evs = Subplots # snd body
      in case fst body of
           Some e \<Rightarrow> (Some e, evs)
         | None \<Rightarrow>
             (None,
              evs @ (if grid then [Grid] else [])
                @ [Set_xlabel (if north then ''Northing [m]'' else ''Easting [m]''),
                   Set_ylabel (if elev then ''Elevation [m]'' else ''Depth [m]''),
                   legend_call evs]
                @ (if save then [Savefig (replace_space title)] else [])
                @ [Show]))"

section \<open>Call sequences and example wells\<close>

text \<open>A sequence of \<open>add_interval\<close> calls on one well, each call given by its arguments
  \<open>(top, bottom, lithology, description)\<close>.\<close>

definition add_intervals ::
  "DataFrame \<Rightarrow> Well \<Rightarrow> (real \<times> real \<times> string \<times> string) list \<Rightarrow> Well" where
  "add_intervals cls w calls =
     foldl (\<lambda>w' c. add_interval cls w' (fst c) (fst (snd c)) (fst (snd (snd c)))
                      (snd (snd (snd c)))) w calls"

text \<open>\<open>Well()\<close>, and \<open>Well(name=..., xcoord=..., elevation=...)\<close>.\<close>

definition Borehole :: Well where
  "Borehole = Well_init None None None None None None None"

definition Well_at :: "string \<Rightarrow> real \<Rightarrow> real \<Rightarrow> Well" where
  "Well_at nm x e = Well_init (Some nm) (Some x) None (Some e) None None None"

text \<open>The example of the specification: \<open>add_interval(2, 5, "Till")\<close>, then
  \<open>add_interval(0, 2, "Clay")\<close>, on a new well.\<close>

definition Clay02 :: interval where
  "Clay02 = \<lparr>Lithology = ''Clay'', Top = 0, Bottom = 2, Description = ''''\<rparr>"

definition Till25 :: interval where
  "Till25 = \<lparr>Lithology = ''Till'', Top = 2, Bottom = 5, Description = ''''\<rparr>"

definition Till_Clay :: Well where
  "Till_Clay = add_intervals [] Borehole [(2, 5, ''Till'', ''''), (0, 2, ''Clay'', '''')]"

text \<open>The same two intervals added in order of depth.\<close>

definition Clay_Till :: Well where
  "Clay_Till = add_intervals [] Borehole [(0, 2, ''Clay'', ''''), (2, 5, ''Till'', '''')]"

text \<open>What \<open>remove_interval(layNum=0)\<close> leaves of it: the Till interval, under label 1.\<close>

definition Till_left :: Well where
  "Till_left = Clay_Till\<lparr>own_intervals := Some [(1, Till25)]\<rparr>"

text \<open>The example of the specification for sections: a well of elevation 100 with one
  Clay interval from 0 to 2 (here at x = 10), and a second well without intervals.\<close>

definition Well_A :: Well where
  "Well_A = add_interval [] (Well_at ''A'' 10 100) 0 2 ''Clay'' ''''"

definition Well_B :: Well where
  "Well_B = Well_at ''B'' 50 90"

text \<open>A well with one interval of a lithology that the style table does not have.\<close>

definition Granite02 :: interval where
  "Granite02 = \<lparr>Lithology = ''Granite'', Top = 0, Bottom = 2, Description = ''''\<rparr>"

definition Well_G :: Well where
  "Well_G = add_interval [] (Well_at ''G'' 0 100) 0 2 ''Granite'' ''''"


section \<open>Basic facts\<close>

lemma intervals_add_interval:
  "intervals cls (add_interval cls w tp bttm l d) =
     sort_values (drop_duplicates (append_ignore_index (intervals cls w)
        \<lparr>Lithology = l, Top = tp, Bottom = bttm, Description = d\<rparr>))"
  by (simp add: add_interval_def intervals_def Let_def)

lemma sorted_sort_values: "sorted (map (\<lambda>p. Top (snd p)) (sort_values df))"
  by (simp add: sort_values_def)

lemma intervals_Borehole: "intervals [] Borehole = []"
  by (simp add: intervals_def Borehole_def Well_init_def)

lemma intervals_Till_Clay: "intervals [] Till_Clay = [(1, Clay02), (0, Till25)]"
  by (simp add: Till_Clay_def add_intervals_def add_interval_def intervals_def Borehole_def
      Well_init_def append_ignore_index_def sort_values_def Let_def Clay02_def Till25_def)

lemma intervals_Clay_Till: "intervals [] Clay_Till = [(0, Clay02), (1, Till25)]"
  by (simp add: Clay_Till_def add_intervals_def add_interval_def intervals_def Borehole_def
      Well_init_def append_ignore_index_def sort_values_def Let_def Clay02_def Till25_def)

lemma intervals_Till_left: "intervals [] Till_left = [(1, Till25)]"
  by (simp add: Till_left_def intervals_def)

lemma intervals_Well_A: "intervals [] Well_A = [(0, Clay02)]"
  by (simp add: Well_A_def Well_at_def add_interval_def intervals_def
      Well_init_def append_ignore_index_def sort_values_def Let_def Clay02_def)

lemma intervals_Well_B: "intervals [] Well_B = []"
  by (simp add: Well_B_def Well_at_def intervals_def Well_init_def)

lemma intervals_Well_G: "intervals [] Well_G = [(0, Granite02)]"
  by (simp add: Well_G_def Well_at_def add_interval_def intervals_def
      Well_init_def append_ignore_index_def sort_values_def Let_def Granite02_def)

lemma fields_Well_A: "xcoord Well_A = 10" "elevation Well_A = 100" "name Well_A = ''A''"
  by (simp_all add: Well_A_def Well_at_def add_interval_def Well_init_def Let_def)

lemma fields_Well_B: "xcoord Well_B = 50" "elevation Well_B = 90" "name Well_B = ''B''"
  by (simp_all add: Well_B_def Well_at_def Well_init_def)

lemma plotTemplates_Clay:
  "plotTemplates ''Clay'' = Some \<lparr>color = ''dimgray'', hatch = ''---'', alpha = 0.8\<rparr>"
  by (simp add: plotTemplates_def)

lemma plotTemplates_Till:
  "plotTemplates ''Till'' = Some \<lparr>color = ''peru'', hatch = ''xx'', alpha = 0.85\<rparr>"
  by (simp add: plotTemplates_def)

lemma plotTemplates_Granite: "plotTemplates ''Granite'' = None"
  by (simp add: plotTemplates_def)

subsection \<open>Rows and labels under the pandas operations\<close>



lemma set_drop_duplicates: "set (drop_duplicates df) \<subseteq> set df"
  by (induction df rule: drop_duplicates.induct) auto















text \<open>Dropping a label from a table whose labels are consecutive and ascending removes
  the row at that position.\<close>

lemma filter_label_ordered:
  "map fst df = [m..<m + length df] \<Longrightarrow> k < length df \<Longrightarrow>
   filter (\<lambda>p. fst p \<noteq> m + k) df = take k df @ drop (Suc k) df"
proof (induction df arbitrary: m k)
  case Nil
  then show ?case by simp
next
  case (Cons p df)
  from Cons.prems(1) have hd: "fst p = m" and tl: "map fst df = [Suc m..<Suc m + length df]"
    by (simp_all add: upt_rec)
  show ?case
  proof (cases k)
    case 0
    have "\<forall>q \<in> set df. fst q \<noteq> m"
    proof
      fix q assume "q \<in> set df"
      then have "fst q \<in> set (map fst df)" by simp
      with tl have "fst q \<in> set [Suc m..<Suc m + length df]" by simp
      then have "Suc m \<le> fst q" by (simp only: set_upt atLeastLessThan_iff)
      then show "fst q \<noteq> m" by arith
    qed
    then have "filter (\<lambda>p. fst p \<noteq> m) df = df" by (simp add: filter_id_conv)
    with 0 hd show ?thesis by simp
  next
    case (Suc j)
    with Cons.prems(2) have "j < length df" by simp
    from Cons.IH [OF tl this] Suc hd show ?thesis by simp
  qed
qed

subsection \<open>Index labels stay distinct\<close>

lemma distinct_labels_append: "distinct (map fst (append_ignore_index df r))"
  by (simp add: append_ignore_index_def)

lemma distinct_labels_drop_duplicates:
  "distinct (map fst df) \<Longrightarrow> distinct (map fst (drop_duplicates df))"
proof (induction df rule: drop_duplicates.induct)
  case 1
  then show ?case by simp
next
  case (2 p ps)
  let ?ps = "filter (\<lambda>q. snd q \<noteq> snd p) ps"
  from "2.prems" have "distinct (map fst ?ps)" by (simp add: distinct_map_filter)
  then have "distinct (map fst (drop_duplicates ?ps))" by (rule "2.IH")
  moreover have "set (drop_duplicates ?ps) \<subseteq> set ps"
    using set_drop_duplicates [of ?ps] by auto
  with "2.prems" have "fst p \<notin> fst ` set (drop_duplicates ?ps)" by auto
  ultimately show ?case by simp
qed

lemma distinct_labels_sort_values:
  "distinct (map fst (sort_values df)) = distinct (map fst df)"
  by (simp add: sort_values_def distinct_map)

lemma distinct_labels_add_interval:
  "distinct (map fst (intervals cls (add_interval cls w tp bttm l d)))"
  by (simp add: intervals_add_interval distinct_labels_sort_values
      distinct_labels_drop_duplicates distinct_labels_append)

lemma distinct_labels_remove_interval:
  "distinct (map fst (intervals cls w)) \<Longrightarrow> remove_interval cls w layNum lithology = Inr w' \<Longrightarrow>
   distinct (map fst (intervals cls w'))"
  by (auto simp add: remove_interval_def drop_label_def intervals_def distinct_map_filter
      split: if_splits option.splits)

subsection \<open>The rendering loops\<close>

lemma iloc_label:
  "iloc df (int i) = (if i < length df then Inr (snd (df ! i)) else Inl IndexError)"
  by (simp add: iloc_def)

text \<open>Distinct labels that are all valid positions are all the positions.\<close>

lemma labels_cover:
  assumes "distinct idx" and "\<forall>i \<in> set idx. i < n" and "length idx = n"
  shows "set idx = {0..<n}"
proof -
  have "set idx \<subseteq> {0..<n}" using assms(2) by auto
  moreover have "card (set idx) = card {0..<n}"
    using assms(1,3) by (simp add: distinct_card)
  ultimately show ?thesis by (simp add: card_subset_eq)
qed

lemma row_position:
  assumes "(i, r) \<in> set df"
  obtains j where "j < length df" and "snd (df ! j) = r"
proof -
  from assms obtain j where "j < length df" "df ! j = (i, r)"
    by (auto simp add: in_set_conv_nth)
  then have "snd (df ! j) = r" by simp
  with \<open>j < length df\<close> show ?thesis by (rule that)
qed

text \<open>When the inner loop of \<open>plotSection\<close> runs through, every label it was given is a
  position of the table and the row at that position has been drawn.\<close>

lemma plotSection_loop_ok:
  "plotSection_loop cls w width idx xx = (None, xx', evs) \<Longrightarrow> i \<in> set idx \<Longrightarrow>
   i < length (intervals cls w) \<and>
   (\<exists>st. plotTemplates (Lithology (snd (intervals cls w ! i))) = Some st \<and>
      Fill [xcoord w, xcoord w, xcoord w + width, xcoord w + width]
           [elevation w - Top (snd (intervals cls w ! i)),
            elevation w - Bottom (snd (intervals cls w ! i)),
            elevation w - Bottom (snd (intervals cls w ! i)),
            elevation w - Top (snd (intervals cls w ! i))]
           (color st) (hatch st) (alpha st) (Lithology (snd (intervals cls w ! i))) \<in> set evs)"
proof (induction idx arbitrary: xx xx' evs)
  case Nil
  then show ?case by simp
next
  case (Cons j idx)
  let ?df = "intervals cls w"
  from Cons.prems(1) have j: "j < length ?df"
    by (auto simp add: iloc_label split: if_splits)
  from Cons.prems(1) j obtain st where st: "plotTemplates (Lithology (snd (?df ! j))) = Some st"
    by (auto simp add: iloc_label Let_def split: option.splits)
  obtain e1 x1 evs1 where rest: "plotSection_loop cls w width idx (Some (xcoord w)) = (e1, x1, evs1)"
    by (rule prod_cases3)
  from Cons.prems(1) j st rest have e1: "e1 = None"
    and evs: "evs = Fill [xcoord w, xcoord w, xcoord w + width, xcoord w + width]
           [elevation w - Top (snd (?df ! j)), elevation w - Bottom (snd (?df ! j)),
            elevation w - Bottom (snd (?df ! j)), elevation w - Top (snd (?df ! j))]
           (color st) (hatch st) (alpha st) (Lithology (snd (?df ! j))) # evs1"
    by (simp_all add: iloc_label Let_def)
  show ?case
  proof (cases "i = j")
    case True
    with j st evs show ?thesis by simp
  next
    case False
    with Cons.prems(2) have "i \<in> set idx" by simp
    from Cons.IH [OF rest [unfolded e1] this] evs show ?thesis by auto
  qed
qed

text \<open>When the outer loop runs through, the inner loop has run through for every well,
  and what it drew is part of the figure.\<close>

lemma plotSection_wells_ok:
  "plotSection_wells cls wells width h xx = (None, evs) \<Longrightarrow> w \<in> set wells \<Longrightarrow>
   \<exists>xx0 xx1 evs'. plotSection_loop cls w width (map fst (intervals cls w)) xx0 = (None, xx1, evs')
      \<and> set evs' \<subseteq> set evs"
proof (induction wells arbitrary: xx evs)
  case Nil
  then show ?case by simp
next
  case (Cons v wells)
  obtain e1 x1 evs1 where body:
    "plotSection_loop cls v width (map fst (intervals cls v)) xx = (e1, x1, evs1)"
    by (rule prod_cases3)
  from Cons.prems(1) body have e1: "e1 = None"
    by (auto simp add: Let_def split: option.splits)
  from Cons.prems(1) body e1 obtain x where x1: "x1 = Some x"
    by (auto simp add: Let_def split: option.splits)
  obtain e2 evs2 where rest: "plotSection_wells cls wells width h (Some x) = (e2, evs2)"
    by (rule prod.exhaust)
  from Cons.prems(1) body e1 x1 rest have e2: "e2 = None"
    and evs: "evs = evs1 @ Text (x + width * 0.5) (elevation v + h) (name v) # evs2"
    by (simp_all add: Let_def)
  show ?case
  proof (cases "w = v")
    case True
    with body e1 evs show ?thesis by auto
  next
    case False
    with Cons.prems(2) have "w \<in> set wells" by simp
    from Cons.IH [OF rest [unfolded e2] this] evs show ?thesis by auto
  qed
qed

text \<open>A loop that stops, stops with \<open>KeyError\<close> or \<open>IndexError\<close>; no loop shows or saves
  the figure; and a loop over distinct labels cannot run through when a row has a
  lithology that the style table does not have.\<close>

lemma plotWell_loop_ok:
  "plotWell_loop df desc idx = (None, evs) \<Longrightarrow> i \<in> set idx \<Longrightarrow>
   i < length df \<and> plotTemplates (Lithology (snd (df ! i))) \<noteq> None"
proof (induction idx arbitrary: evs)
  case Nil
  then show ?case by simp
next
  case (Cons j idx)
  from Cons.prems(1) have j: "j < length df"
    by (auto simp add: iloc_label split: if_splits)
  from Cons.prems(1) j obtain st where st: "plotTemplates (Lithology (snd (df ! j))) = Some st"
    by (auto simp add: iloc_label Let_def split: option.splits)
  obtain e1 evs1 where rest: "plotWell_loop df desc idx = (e1, evs1)"
    by (rule prod.exhaust)
  from Cons.prems(1) j st rest have e1: "e1 = None"
    by (simp add: iloc_label Let_def)
  show ?case
  proof (cases "i = j")
    case True
    with j st show ?thesis by simp
  next
    case False
    with Cons.prems(2) have "i \<in> set idx" by simp
    from Cons.IH [OF rest [unfolded e1] this] show ?thesis .
  qed
qed

lemma plotWell_loop_error:
  "fst (plotWell_loop df desc idx) = Some e \<Longrightarrow> is_LookupError e"
  by (induction idx) (auto simp add: iloc_label Let_def split: if_splits option.splits)

lemma plotWell_loop_events:
  "ev \<in> set (snd (plotWell_loop df desc idx)) \<Longrightarrow> ev \<noteq> Show \<and> \<not> is_Savefig ev"
  by (induction idx) (auto simp add: iloc_label Let_def split: if_splits option.splits)

lemma plotSection_loop_error:
  "fst (plotSection_loop cls w width idx xx) = Some e \<Longrightarrow> is_LookupError e"
  by (induction idx arbitrary: xx) (auto simp add: iloc_label Let_def split: if_splits option.splits)

lemma plotSection_loop_events:
  "ev \<in> set (snd (snd (plotSection_loop cls w width idx xx))) \<Longrightarrow> ev \<noteq> Show \<and> \<not> is_Savefig ev"
  by (induction idx arbitrary: xx) (auto simp add: iloc_label Let_def split: if_splits option.splits)

lemma plotSection_loop_xx:
  "fst (plotSection_loop cls w width idx xx) = None \<Longrightarrow> xx \<noteq> None \<or> idx \<noteq> [] \<Longrightarrow>
   fst (snd (plotSection_loop cls w width idx xx)) \<noteq> None"
  by (induction idx arbitrary: xx) (auto simp add: iloc_label Let_def split: if_splits option.splits)

lemma plotSection_wells_error:
  "fst (plotSection_wells cls wells width h xx) = Some e \<Longrightarrow>
   xx \<noteq> None \<or> (wells \<noteq> [] \<and> intervals cls (hd wells) \<noteq> []) \<Longrightarrow> is_LookupError e"
proof (induction wells arbitrary: xx)
  case Nil
  then show ?case by simp
next
  case (Cons v wells)
  let ?body = "plotSection_loop cls v width (map fst (intervals cls v)) xx"
  show ?case
  proof (cases "fst ?body")
    case (Some e')
    with Cons.prems(1) have "e = e'" by (simp add: Let_def)
    with Some show ?thesis by (simp add: plotSection_loop_error)
  next
    case None
    from Cons.prems(2) have "xx \<noteq> None \<or> map fst (intervals cls v) \<noteq> []" by auto
    with None have "fst (snd ?body) \<noteq> None" by (rule plotSection_loop_xx)
    then obtain x where x: "fst (snd ?body) = Some x" by auto
    from Cons.prems(1) None x
    have "fst (plotSection_wells cls wells width h (Some x)) = Some e"
      by (simp add: Let_def)
    then show ?thesis by (rule Cons.IH) simp
  qed
qed

lemma plotSection_wells_events:
  "ev \<in> set (snd (plotSection_wells cls wells width h xx)) \<Longrightarrow> ev \<noteq> Show \<and> \<not> is_Savefig ev"
proof (induction wells arbitrary: xx)
  case Nil
  then show ?case by simp
next
  case (Cons v wells)
  then show ?case
    by (auto simp add: Let_def split: option.splits dest: plotSection_loop_events)
qed

lemma unknown_lithology_stops_loop:
  assumes labels: "distinct (map fst df)"
    and row: "(i, r) \<in> set df"
    and bad: "plotTemplates (Lithology r) = None"
  shows "fst (plotWell_loop df desc (map fst df)) \<noteq> None"
proof
  assume "fst (plotWell_loop df desc (map fst df)) = None"
  then have run: "plotWell_loop df desc (map fst df) = (None, snd (plotWell_loop df desc (map fst df)))"
    by (simp add: prod_eq_iff)
  have "\<forall>k \<in> set (map fst df). k < length df"
    using plotWell_loop_ok [OF run] by blast
  moreover have "length (map fst df) = length df" by simp
  ultimately have cover: "set (map fst df) = {0..<length df}"
    using labels by (rule labels_cover [rotated])
  from row obtain j where j: "j < length df" and r: "snd (df ! j) = r"
    by (rule row_position)
  from j cover have "j \<in> set (map fst df)" by simp
  from plotWell_loop_ok [OF run this] r bad show False by simp
qed

lemma unknown_lithology_stops_wells:
  assumes w: "w \<in> set wells"
    and labels: "distinct (map fst (intervals cls w))"
    and row: "(i, r) \<in> set (intervals cls w)"
    and bad: "plotTemplates (Lithology r) = None"
  shows "fst (plotSection_wells cls wells width h xx) \<noteq> None"
proof
  let ?df = "intervals cls w"
  assume "fst (plotSection_wells cls wells width h xx) = None"
  then have run: "plotSection_wells cls wells width h xx
      = (None, snd (plotSection_wells cls wells width h xx))"
    by (simp add: prod_eq_iff)
  from plotSection_wells_ok [OF run w] obtain xx0 xx1 evs1
    where loop: "plotSection_loop cls w width (map fst ?df) xx0 = (None, xx1, evs1)" by blast
  have "\<forall>k \<in> set (map fst ?df). k < length ?df"
    using plotSection_loop_ok [OF loop] by blast
  moreover have "length (map fst ?df) = length ?df" by simp
  ultimately have cover: "set (map fst ?df) = {0..<length ?df}"
    using labels by (rule labels_cover [rotated])
  from row obtain j where j: "j < length ?df" and r: "snd (?df ! j) = r"
    by (rule row_position)
  from j cover have "j \<in> set (map fst ?df)" by simp
  from plotSection_loop_ok [OF loop this] r bad show False by simp
qed

section \<open>Sortedness after \<open>add_interval\<close>\<close>

text \<open>
  Claim C2. Whatever state a well is in and whatever non-empty sequence of \<open>add_interval\<close>
  calls is made on it, the interval table after the last call of the sequence is sorted
  ascending by Top. Every prefix of a call sequence is a call sequence, so this holds
  after each call.
\<close>

theorem add_interval_sorted:
  "calls \<noteq> [] \<Longrightarrow>
   sorted (map (\<lambda>p. Top (snd p)) (intervals cls (add_intervals cls w calls)))"
proof (induction calls rule: rev_induct)
  case Nil
  then show ?case by simp
next
  case (snoc c calls)
  show ?case
    by (simp add: add_intervals_def intervals_add_interval sorted_sort_values)
qed

theorem add_interval_sorted_witness:
  "[(2, 5, ''Till'', ''''), (0, 2, ''Clay'', '''')] \<noteq> [] \<and>
   sorted (map (\<lambda>p. Top (snd p))
     (intervals [] (add_intervals [] Borehole [(2, 5, ''Till'', ''''), (0, 2, ''Clay'', '''')])))"
  using add_interval_sorted [of "[(2, 5, ''Till'', ''''), (0, 2, ''Clay'', '''')]" "[]" Borehole]
  by simp

section \<open>\<open>plotWell\<close> on an empty well\<close>

text \<open>
  Claim C10. On a well without intervals \<open>plotWell\<close> raises \<open>IndexError\<close> at the read of
  the first interval's Top (line 72): no call on matplotlib has been made by then, so
  nothing is drawn, shown or saved.
\<close>

theorem plotWell_empty:
  "intervals cls w = [] \<Longrightarrow>
   plotWell cls w description hatch0 legend figTitle save = (Some IndexError, [])"
  by (simp add: plotWell_def iloc_def)

theorem plotWell_empty_witness:
  "intervals [] Borehole = [] \<and>
   plotWell [] Borehole True True False None True = (Some IndexError, [])"
  using plotWell_empty [of "[]" Borehole True True False None True]
  by (simp add: intervals_Borehole)

section \<open>Duplicate intervals\<close>


section \<open>\<open>remove_interval\<close>\<close>

text \<open>
  Claim C7. \<open>remove_interval(lithology=l)\<close> never raises; the table it leaves is the old
  table without the rows whose Lithology is \<open>l\<close>: every other row is kept with its label
  and its fields, in the same relative order, and no other attribute of the well
  changes. This holds in every state of the well, so after any earlier calls.
\<close>

theorem remove_interval_lithology:
  "\<exists>w'. remove_interval cls w None (Some l) = Inr w' \<and>
     intervals cls w' = filter (\<lambda>p. Lithology (snd p) \<noteq> l) (intervals cls w) \<and>
     (\<forall>p \<in> set (intervals cls w'). Lithology (snd p) \<noteq> l) \<and>
     w' = w\<lparr>own_intervals := own_intervals w'\<rparr>"
  by (simp add: remove_interval_def intervals_def)

theorem remove_interval_lithology_witness:
  "\<exists>w'. remove_interval [] Till_Clay None (Some ''Till'') = Inr w' \<and>
     intervals [] w' = [(1, Clay02)] \<and>
     (\<forall>p \<in> set (intervals [] w'). Lithology (snd p) \<noteq> ''Till'') \<and>
     w' = Till_Clay\<lparr>own_intervals := own_intervals w'\<rparr>"
  using remove_interval_lithology [of "[]" Till_Clay "''Till''"]
  by (simp add: intervals_Till_Clay Clay02_def Till25_def)

text \<open>
  Claim C5, as stated, fails twice. With both selectors given and \<open>layNum\<close> not a label
  of the table (here: the empty table of a new well) \<open>drop\<close> raises \<open>KeyError\<close>. And the
  message of the exception raised without selectors is not the one the claim quotes.
\<close>

theorem remove_interval_selectors_counterexample:
  "remove_interval [] Borehole (Some 0) (Some ''Clay'') = Inl KeyError \<and>
   remove_interval [] Borehole None None
     \<noteq> Inl (Exception ''must specify a layer number or lithology'')"
  by (simp add: remove_interval_def drop_label_def intervals_Borehole)

text \<open>
  Claim C5, amended. \<open>remove_interval\<close> raises
  \<open>Exception('Need to specify a layer number or lithology!')\<close> if and only if both
  selectors are absent. When both are given and \<open>layNum\<close> is a label of the table, no
  error is raised and both removals are applied in order: first the row labelled
  \<open>layNum\<close>, then every remaining row of the lithology. When \<open>layNum\<close> is given and is
  no label of the table, \<open>KeyError\<close> is raised.
\<close>

theorem remove_interval_selectors:
  "(remove_interval cls w layNum lithology =
      Inl (Exception ''Need to specify a layer number or lithology!'')
    \<longleftrightarrow> layNum = None \<and> lithology = None) \<and>
   (k \<in> set (map (\<lambda>p. int (fst p)) (intervals cls w)) \<longrightarrow>
      remove_interval cls w (Some k) (Some l) =
        Inr (w\<lparr>own_intervals := Some (filter (\<lambda>p. Lithology (snd p) \<noteq> l)
               (filter (\<lambda>p. int (fst p) \<noteq> k) (intervals cls w)))\<rparr>)) \<and>
   (k \<notin> set (map (\<lambda>p. int (fst p)) (intervals cls w)) \<longrightarrow>
      remove_interval cls w (Some k) lithology = Inl KeyError)"
  by (auto simp add: remove_interval_def drop_label_def intervals_def split: option.splits)

theorem remove_interval_selectors_witness:
  "(remove_interval [] Till_Clay None None =
      Inl (Exception ''Need to specify a layer number or lithology!'')) \<and>
   1 \<in> set (map (\<lambda>p. int (fst p)) (intervals [] Till_Clay)) \<and>
   remove_interval [] Till_Clay (Some 1) (Some ''Till'') =
     Inr (Till_Clay\<lparr>own_intervals := Some []\<rparr>) \<and>
   5 \<notin> set (map (\<lambda>p. int (fst p)) (intervals [] Till_Clay)) \<and>
   remove_interval [] Till_Clay (Some 5) (Some ''Till'') = Inl KeyError"
  using remove_interval_selectors [of "[]" Till_Clay None None 1 "''Till''"]
    remove_interval_selectors [of "[]" Till_Clay "Some 5" "Some ''Till''" 5 "''Till''"]
  by (simp add: intervals_Till_Clay Clay02_def Till25_def)

text \<open>
  Claim C3, as stated, fails. After \<open>add_interval(2, 5, "Till")\<close> and
  \<open>add_interval(0, 2, "Clay")\<close> the Clay interval stands at position 0 of the sorted
  table, and \<open>remove_interval(layNum=0)\<close> removes the Till interval at position 1: the
  row that carries label 0.
\<close>

theorem remove_interval_layNum_counterexample:
  "map snd (intervals [] Till_Clay) ! 0 = Clay02 \<and>
   remove_interval [] Till_Clay (Some 0) None
     = Inr (Till_Clay\<lparr>own_intervals := Some [(1, Clay02)]\<rparr>)"
  by (simp add: intervals_Till_Clay remove_interval_def drop_label_def)

text \<open>
  Claim C3, amended. \<open>remove_interval(layNum=k)\<close> removes the row whose index label is
  \<open>k\<close>, wherever that row stands in the sorted table, and keeps every other row in
  order. That row is the one at ordinal position \<open>k\<close> when the labels of the table are
  \<open>0, 1, ...\<close> in stored order.
\<close>

theorem remove_interval_layNum:
  "(k \<in> set (map fst (intervals cls w)) \<longrightarrow>
      remove_interval cls w (Some (int k)) None =
        Inr (w\<lparr>own_intervals := Some (filter (\<lambda>p. fst p \<noteq> k) (intervals cls w))\<rparr>)) \<and>
   (map fst (intervals cls w) = [0..<length (intervals cls w)] \<and> k < length (intervals cls w)
      \<longrightarrow>
      remove_interval cls w (Some (int k)) None =
        Inr (w\<lparr>own_intervals :=
               Some (take k (intervals cls w) @ drop (Suc k) (intervals cls w))\<rparr>))"
proof -
  have a: "remove_interval cls w (Some (int k)) None =
        Inr (w\<lparr>own_intervals := Some (filter (\<lambda>p. fst p \<noteq> k) (intervals cls w))\<rparr>)"
    if "k \<in> set (map fst (intervals cls w))"
    using that by (auto simp add: remove_interval_def drop_label_def)
  have b: "filter (\<lambda>p. fst p \<noteq> k) (intervals cls w)
             = take k (intervals cls w) @ drop (Suc k) (intervals cls w)"
     and c: "k \<in> set (map fst (intervals cls w))"
    if "map fst (intervals cls w) = [0..<length (intervals cls w)]" "k < length (intervals cls w)"
    using that filter_label_ordered [of "intervals cls w" 0 k] by simp_all
  show ?thesis
  proof (intro conjI impI)
    assume "k \<in> set (map fst (intervals cls w))"
    then show "remove_interval cls w (Some (int k)) None =
        Inr (w\<lparr>own_intervals := Some (filter (\<lambda>p. fst p \<noteq> k) (intervals cls w))\<rparr>)"
      by (rule a)
  next
    assume h: "map fst (intervals cls w) = [0..<length (intervals cls w)]
                 \<and> k < length (intervals cls w)"
    then have "remove_interval cls w (Some (int k)) None =
        Inr (w\<lparr>own_intervals := Some (filter (\<lambda>p. fst p \<noteq> k) (intervals cls w))\<rparr>)"
      using a c by blast
    with h b show "remove_interval cls w (Some (int k)) None =
        Inr (w\<lparr>own_intervals :=
               Some (take k (intervals cls w) @ drop (Suc k) (intervals cls w))\<rparr>)"
      by simp
  qed
qed

theorem remove_interval_layNum_witness:
  "0 \<in> set (map fst (intervals [] Till_Clay)) \<and>
   remove_interval [] Till_Clay (Some (int 0)) None
     = Inr (Till_Clay\<lparr>own_intervals := Some [(1, Clay02)]\<rparr>) \<and>
   map fst (intervals [] Clay_Till) = [0..<length (intervals [] Clay_Till)] \<and>
   1 < length (intervals [] Clay_Till) \<and>
   remove_interval [] Clay_Till (Some (int 1)) None
     = Inr (Clay_Till\<lparr>own_intervals := Some [(0, Clay02)]\<rparr>)"
  using remove_interval_layNum [of 0 "[]" Till_Clay] remove_interval_layNum [of 1 "[]" Clay_Till]
  by (simp add: intervals_Till_Clay intervals_Clay_Till upt_rec)

section \<open>Instances do not share their intervals\<close>



section \<open>Sections\<close>

text \<open>
  Claim C4 does not hold of the code. The local variable \<open>xx\<close> is assigned only inside
  the loop over the intervals (line 239) and read after it (line 246). A well without
  intervals that comes first raises \<open>UnboundLocalError\<close>; one that comes later gets its
  name label at the x position of the last well that had intervals (below: well B stands
  at x = 50 and is labelled at 12.5, the label position of well A).
\<close>

theorem plotSection_empty_well:
  "intervals [] Borehole = [] \<and>
   plotSection [] [Borehole] 5 True False ''Cross-section'' False True 1.5
     = (Some UnboundLocalError, [Subplots]) \<and>
   intervals [] Well_B = [] \<and> xcoord Well_B = 50 \<and>
   plotSection [] [Well_A, Well_B] 5 True False ''Cross-section'' False True 1.5
     = (None,
        [Subplots,
         Fill [10, 10, 15, 15] [100, 98, 98, 100] ''dimgray'' ''---'' 0.8 ''Clay'',
         Text 12.5 101.5 ''A'',
         Text 12.5 91.5 ''B'',
         Grid, Set_xlabel ''Easting [m]'', Set_ylabel ''Elevation [m]'',
         Legend [0] [''Clay''], Show])"
  by (simp add: plotSection_def intervals_Borehole intervals_Well_A intervals_Well_B
      fields_Well_A fields_Well_B iloc_def plotTemplates_Clay Clay02_def Let_def
      legend_call_def OrderedDict_def)

text \<open>
  Claim C1, as stated, fails. An interval whose lithology the style table does not have
  is not drawn (\<open>KeyError\<close>, as the specification says of rendering). And after
  \<open>remove_interval(layNum=0)\<close> on a well with two intervals the remaining interval carries
  label 1, which \<open>iloc\<close> takes as a position: \<open>IndexError\<close>, and nothing is drawn for it.
\<close>

theorem plotSection_elevation_counterexample:
  "(0, Granite02) \<in> set (intervals [] Well_G) \<and>
   plotSection [] [Well_G] 5 True False ''Cross-section'' False True 1.5
     = (Some KeyError, [Subplots]) \<and>
   remove_interval [] Clay_Till (Some 0) None = Inr Till_left \<and>
   (1, Till25) \<in> set (intervals [] Till_left) \<and>
   plotSection [] [Till_left] 5 True False ''Cross-section'' False True 1.5
     = (Some IndexError, [Subplots])"
proof -
  have a: "(0, Granite02) \<in> set (intervals [] Well_G)"
    by (simp add: intervals_Well_G)
  have b: "plotSection [] [Well_G] 5 True False ''Cross-section'' False True 1.5
     = (Some KeyError, [Subplots])"
    by (simp add: plotSection_def intervals_Well_G iloc_def plotTemplates_Granite
        Granite02_def Let_def)
  have c: "remove_interval [] Clay_Till (Some 0) None = Inr Till_left"
    by (simp add: remove_interval_def drop_label_def intervals_Clay_Till Till_left_def)
  have d: "(1, Till25) \<in> set (intervals [] Till_left)"
    by (simp add: intervals_Till_left)
  have e: "plotSection [] [Till_left] 5 True False ''Cross-section'' False True 1.5
     = (Some IndexError, [Subplots])"
    by (simp add: plotSection_def intervals_Till_left iloc_def Let_def)
  from a b c d e show ?thesis by simp
qed

text \<open>
  Claim C1, amended. Whenever \<open>plotSection\<close> runs to completion on a list of wells, for
  every well of the list whose index labels are distinct (as \<open>add_interval\<close> and
  \<open>remove_interval\<close> leave them) with elevation E, and every stored interval of it with
  Top T and Bottom B, the figure holds that interval's rectangle: horizontally from
  the well's x coordinate to x + width, vertically with the corners E - T, E - B, E - B,
  E - T, so spanning exactly [E - B, E - T], in the style of its lithology.
\<close>

theorem plotSection_elevation:
  assumes fin: "plotSection cls wells width grid save title north elev h = (None, evs)"
    and w: "w \<in> set wells"
    and labels: "distinct (map fst (intervals cls w))"
    and row: "(i, r) \<in> set (intervals cls w)"
  shows "\<exists>st. plotTemplates (Lithology r) = Some st \<and>
      Fill [xcoord w, xcoord w, xcoord w + width, xcoord w + width]
           [elevation w - Top r, elevation w - Bottom r, elevation w - Bottom r, elevation w - Top r]
           (color st) (hatch st) (alpha st) (Lithology r) \<in> set evs"
proof -
  let ?df = "intervals cls w"
  obtain e0 evs0 where body: "plotSection_wells cls wells width h None = (e0, evs0)"
    by (rule prod.exhaust)
  from fin body have e0: "e0 = None" and sub: "set evs0 \<subseteq> set evs"
    by (auto simp add: plotSection_def Let_def split: option.splits)
  from plotSection_wells_ok [OF body [unfolded e0] w] obtain xx0 xx1 evs1
    where loop: "plotSection_loop cls w width (map fst ?df) xx0 = (None, xx1, evs1)"
      and sub1: "set evs1 \<subseteq> set evs0" by blast
  have "\<forall>k \<in> set (map fst ?df). k < length ?df"
    using plotSection_loop_ok [OF loop] by blast
  moreover have "length (map fst ?df) = length ?df" by simp
  ultimately have cover: "set (map fst ?df) = {0..<length ?df}"
    using labels by (rule labels_cover [rotated])
  from row obtain j where j: "j < length ?df" and r: "snd (?df ! j) = r"
    by (rule row_position)
  from j cover have "j \<in> set (map fst ?df)" by simp
  from plotSection_loop_ok [OF loop this] r sub1 sub show ?thesis by auto
qed

theorem plotSection_elevation_witness:
  "plotSection [] [Well_A] 5 True False ''Cross-section'' False True 1.5
     = (None,
        [Subplots,
         Fill [10, 10, 15, 15] [100, 98, 98, 100] ''dimgray'' ''---'' 0.8 ''Clay'',
         Text 12.5 101.5 ''A'',
         Grid, Set_xlabel ''Easting [m]'', Set_ylabel ''Elevation [m]'',
         Legend [0] [''Clay''], Show]) \<and>
   Well_A \<in> set [Well_A] \<and>
   distinct (map fst (intervals [] Well_A)) \<and>
   (0, Clay02) \<in> set (intervals [] Well_A) \<and>
   (\<exists>st. plotTemplates ''Clay'' = Some st \<and>
      Fill [10, 10, 15, 15] [100 - 0, 100 - 2, 100 - 2, 100 - 0]
           (color st) (hatch st) (alpha st) ''Clay''
        \<in> set [Subplots,
         Fill [10, 10, 15, 15] [100, 98, 98, 100] ''dimgray'' ''---'' 0.8 ''Clay'',
         Text 12.5 101.5 ''A'',
         Grid, Set_xlabel ''Easting [m]'', Set_ylabel ''Elevation [m]'',
         Legend [0] [''Clay''], Show])"
proof -
  have run: "plotSection [] [Well_A] 5 True False ''Cross-section'' False True 1.5
     = (None,
        [Subplots,
         Fill [10, 10, 15, 15] [100, 98, 98, 100] ''dimgray'' ''---'' 0.8 ''Clay'',
         Text 12.5 101.5 ''A'',
         Grid, Set_xlabel ''Easting [m]'', Set_ylabel ''Elevation [m]'',
         Legend [0] [''Clay''], Show])"
    by (simp add: plotSection_def intervals_Well_A fields_Well_A iloc_def plotTemplates_Clay
        Clay02_def Let_def legend_call_def OrderedDict_def)
  have w: "Well_A \<in> set [Well_A]" by simp
  have labels: "distinct (map fst (intervals [] Well_A))" by (simp add: intervals_Well_A)
  have row: "(0, Clay02) \<in> set (intervals [] Well_A)" by (simp add: intervals_Well_A)
  from plotSection_elevation [OF run w labels row]
  have "\<exists>st. plotTemplates ''Clay'' = Some st \<and>
      Fill [10, 10, 15, 15] [100 - 0, 100 - 2, 100 - 2, 100 - 0]
           (color st) (hatch st) (alpha st) ''Clay''
        \<in> set [Subplots,
         Fill [10, 10, 15, 15] [100, 98, 98, 100] ''dimgray'' ''---'' 0.8 ''Clay'',
         Text 12.5 101.5 ''A'',
         Grid, Set_xlabel ''Easting [m]'', Set_ylabel ''Elevation [m]'',
         Legend [0] [''Clay''], Show]"
    by (simp add: fields_Well_A Clay02_def)
  with run w labels row show ?thesis by blast
qed

section \<open>Unknown lithologies\<close>

text \<open>
  A well with distinct index labels that holds an interval whose lithology is no key of
  the style table: \<open>plotWell\<close> raises \<open>KeyError\<close> or \<open>IndexError\<close> (Python's lookup
  errors), and no \<open>savefig\<close> or \<open>show\<close> call is made. \<open>plotSection\<close> over a list with
  such a well raises as well, before \<open>savefig\<close> and \<open>show\<close>, and with a lookup error when
  the first well of the list has an interval.
\<close>

lemma plotWell_unknown_lithology:
  assumes labels: "distinct (map fst (intervals cls w))"
    and row: "(i, r) \<in> set (intervals cls w)"
    and bad: "plotTemplates (Lithology r) = None"
  shows "\<exists>e evs. plotWell cls w description hatch0 legend figTitle save = (Some e, evs) \<and>
           is_LookupError e \<and> Show \<notin> set evs \<and> (\<forall>ev \<in> set evs. \<not> is_Savefig ev)"
proof -
  let ?df = "intervals cls w"
  let ?body = "plotWell_loop ?df description (map fst ?df)"
  from row have ne: "?df \<noteq> []" by auto
  then have first: "iloc ?df 0 = Inr (snd (?df ! 0))"
    by (simp add: iloc_def)
  from ne obtain rl where lastr: "iloc ?df (- 1) = Inr rl"
    by (cases ?df) (simp_all add: iloc_def)
  from unknown_lithology_stops_loop [OF labels row bad]
  obtain e where e: "fst ?body = Some e" by auto
  then have "is_LookupError e" by (rule plotWell_loop_error)
  moreover have "plotWell cls w description hatch0 legend figTitle save = (Some e, Subplots # snd ?body)"
    using first lastr e by (simp add: plotWell_def Let_def)
  moreover have "Show \<notin> set (Subplots # snd ?body)"
    using plotWell_loop_events [of Show ?df description "map fst ?df"] by auto
  moreover have "\<forall>ev \<in> set (Subplots # snd ?body). \<not> is_Savefig ev"
    using plotWell_loop_events [of _ ?df description "map fst ?df"] by auto
  ultimately show ?thesis by blast
qed

lemma plotSection_unknown_lithology:
  assumes w: "w \<in> set wells"
    and labels: "distinct (map fst (intervals cls w))"
    and row: "(i, r) \<in> set (intervals cls w)"
    and bad: "plotTemplates (Lithology r) = None"
  shows "\<exists>e evs. plotSection cls wells width grid save title north elev h = (Some e, evs) \<and>
           (intervals cls (hd wells) \<noteq> [] \<longrightarrow> is_LookupError e) \<and>
           Show \<notin> set evs \<and> (\<forall>ev \<in> set evs. \<not> is_Savefig ev)"
proof -
  let ?body = "plotSection_wells cls wells width h None"
  from unknown_lithology_stops_wells [OF w labels row bad, of width h None]
  obtain e where e: "fst ?body = Some e" by auto
  from w have ne: "wells \<noteq> []" by auto
  have "intervals cls (hd wells) \<noteq> [] \<longrightarrow> is_LookupError e"
    using plotSection_wells_error [OF e] ne by simp
  moreover have "plotSection cls wells width grid save title north elev h = (Some e, Subplots # snd ?body)"
    using e by (simp add: plotSection_def Let_def)
  moreover have "Show \<notin> set (Subplots # snd ?body)"
    using plotSection_wells_events [of Show cls wells width h None] by auto
  moreover have "\<forall>ev \<in> set (Subplots # snd ?body). \<not> is_Savefig ev"
    using plotSection_wells_events [of _ cls wells width h None] by auto
  ultimately show ?thesis by blast
qed

text \<open>
  Claim C8 does not hold of the code for \<open>plotSection\<close>: when a well without intervals
  comes first in the list, the read of the unassigned \<open>xx\<close> at line 246 raises
  \<open>UnboundLocalError\<close>, which is not a lookup error, before the well with the unknown
  lithology is reached.
\<close>

theorem plotSection_unknown_after_empty:
  "(0, Granite02) \<in> set (intervals [] Well_G) \<and> plotTemplates (Lithology Granite02) = None \<and>
   plotSection [] [Borehole, Well_G] 5 True False ''Cross-section'' False True 1.5
     = (Some UnboundLocalError, [Subplots]) \<and>
   \<not> is_LookupError UnboundLocalError"
  by (simp add: plotSection_def intervals_Borehole intervals_Well_G plotTemplates_Granite
      Granite02_def Let_def)

end
